theory Spec2Isabelle
  imports Complex_Main "HOL-Library.Sublist"
begin

section \<open>Watcher: a periodic CPU and memory logger (watcher.py)\<close>

text \<open>
  The script samples CPU and memory usage through psutil, appends one CSV row per
  successful sample to a log file and sleeps between samples, until it is interrupted.
  Everything it does is an effect on its surroundings, so the embedding passes an
  explicit \<open>world\<close> through every function and takes the outcome of every external
  call (psutil, the clock, the csv writer, \<open>open\<close>, \<open>time.sleep\<close>) from an
  environment value. A Python exception is a value of type \<open>exn\<close>; a function that
  can let one escape returns it next to the world it leaves behind.
\<close>

subsection \<open>Data\<close>

text \<open>
  Python exceptions as far as the script tells them apart: its handlers are
  \<open>except Exception\<close> and \<open>except KeyboardInterrupt\<close>. \<open>KeyboardInterrupt\<close> derives
  from \<open>BaseException\<close> only, so \<open>except Exception\<close> does not catch it. Any other error
  is an \<open>Exception\<close> carrying its message.
\<close>

datatype exn = KeyboardInterrupt | Exception string

text \<open>
  A row of the CSV file: a row of column labels, or a data row
  \<open>[timestamp, cpu_usage, memory_usage]\<close>. \<open>write_log_entry\<close> passes its arguments to
  the writer unchecked, and \<open>get_system_stats\<close> may hand out \<open>None\<close>, so the two
  measurements of a row are optional values. The timestamp is the local wall-clock
  reading in whole seconds (the script renders it with \<open>%Y-%m-%d %H:%M:%S\<close>). The
  percentages are Python floats that the script only passes on: they are modelled as
  reals.
\<close>

datatype row = Labels "string list" | Data nat "real option" "real option"

definition LOG_INTERVAL_SECONDS :: nat where
  "LOG_INTERVAL_SECONDS = 5"

definition LOG_FILE_NAME :: string where
  "LOG_FILE_NAME = ''system_performance_log.csv''"

definition CSV_HEADER :: row where
  "CSV_HEADER = Labels [''Timestamp'', ''CPU Usage (%)'', ''Memory Usage (%)'']"

text \<open>
  The lines the script prints, one constructor per \<open>print\<close> call of the source, with
  the values it interpolates.
\<close>

datatype notice =
    Starting string nat
  | PressCtrlC
  | HeaderWritten
  | StatsError string
  | Logged nat "real option" "real option"
  | WriteError string
  | FailedStats nat
  | StoppedByUser
  | UnexpectedError string
  | Exiting

text \<open>
  The world: the log file on disk (\<open>None\<close> when it does not exist), the open file
  object (\<open>None\<close> when there is none, otherwise the rows it has accepted and not yet
  written through to the file), and standard output. The script never calls
  \<open>flush\<close>; a row reaches the disk when the runtime's buffer fills up on a write
  or when the file object is closed.
\<close>

record world =
  disk :: "row list option"
  csvfile :: "row list option"
  stdout :: "notice list"

text \<open>What the environment answers during one start of the script, before the loop.\<close>

record start_env =
  open_result :: "exn option"
  header_result :: "exn option"

text \<open>
  What the environment answers during one iteration of the loop: the outcome of
  \<open>psutil.cpu_percent(interval=1)\<close> and of \<open>psutil.virtual_memory().percent\<close>, the
  reading of \<open>datetime.datetime.now()\<close>, the outcome of \<open>writerow\<close>, whether the
  runtime wrote its buffer through on that write, and the outcome of \<open>time.sleep\<close>.
  A Ctrl+C that arrives while a call blocks is that call raising \<open>KeyboardInterrupt\<close>.
\<close>

record tick_env =
  cpu_percent :: "exn + real"
  virtual_memory :: "exn + real"
  now :: nat
  writerow_result :: "exn option"
  buffer_spills :: bool
  sleep_result :: "exn option"

subsection \<open>The file object\<close>

definition rows_of :: "row list option \<Rightarrow> row list" where
  "rows_of d = (case d of None \<Rightarrow> [] | Some rs \<Rightarrow> rs)"

definition py_print :: "notice \<Rightarrow> world \<Rightarrow> world" where
  "py_print n w = w\<lparr>stdout := stdout w @ [n]\<rparr>"

text \<open>\<open>open(LOG_FILE_NAME, mode='a')\<close>: creates the file when it is absent, keeps its rows.\<close>

definition py_open :: "world \<Rightarrow> world" where
  "py_open w = w\<lparr>disk := Some (rows_of (disk w)), csvfile := Some []\<rparr>"

text \<open>A successful \<open>writerow\<close>: the file object accepts the row.\<close>

definition writerow :: "row \<Rightarrow> world \<Rightarrow> world" where
  "writerow r w = w\<lparr>csvfile := map_option (\<lambda>b. b @ [r]) (csvfile w)\<rparr>"

text \<open>Writing the buffer through, as the runtime does when the buffer is full.\<close>

definition write_through :: "world \<Rightarrow> world" where
  "write_through w =
     (case csvfile w of
        None \<Rightarrow> w
      | Some b \<Rightarrow> w\<lparr>disk := Some (rows_of (disk w) @ b), csvfile := Some []\<rparr>)"

text \<open>Leaving the \<open>with\<close> block closes the file object, which writes its buffer through.\<close>

definition py_close :: "world \<Rightarrow> world" where
  "py_close w = (write_through w)\<lparr>csvfile := None\<rparr>"

text \<open>\<open>os.path.getsize\<close>, counted in rows: zero exactly when the file holds no row.\<close>

definition getsize :: "world \<Rightarrow> nat" where
  "getsize w = length (rows_of (disk w))"

text \<open>Every row the file holds or will hold once the buffer is written.\<close>

definition all_rows :: "world \<Rightarrow> row list" where
  "all_rows w = rows_of (disk w) @ rows_of (csvfile w)"

subsection \<open>The functions of the script\<close>

text \<open>
  \<open>get_system_stats\<close>: the two queries run inside \<open>try\<close>; \<open>except Exception\<close> prints
  the error and returns \<open>(None, None)\<close>; a \<open>KeyboardInterrupt\<close> is not caught there.
\<close>

definition get_system_stats :: "world \<Rightarrow> tick_env \<Rightarrow> world \<times> (exn + real option \<times> real option)" where
  "get_system_stats w t =
     (case cpu_percent t of
        Inl KeyboardInterrupt \<Rightarrow> (w, Inl KeyboardInterrupt)
      | Inl (Exception e) \<Rightarrow> (py_print (StatsError e) w, Inr (None, None))
      | Inr cpu_usage \<Rightarrow>
          (case virtual_memory t of
             Inl KeyboardInterrupt \<Rightarrow> (w, Inl KeyboardInterrupt)
           | Inl (Exception e) \<Rightarrow> (py_print (StatsError e) w, Inr (None, None))
           | Inr memory_usage \<Rightarrow> (w, Inr (Some cpu_usage, Some memory_usage))))"

text \<open>
  \<open>write_log_entry\<close>: reads the clock, then \<open>writerow\<close> and the confirmation run
  inside \<open>try\<close>; \<open>except Exception\<close> prints the error and returns.
\<close>

definition write_log_entry :: "world \<Rightarrow> tick_env \<Rightarrow> real option \<Rightarrow> real option \<Rightarrow> world \<times> exn option" where
  "write_log_entry w t cpu_usage memory_usage =
     (let timestamp = now t in
      case writerow_result t of
        None \<Rightarrow>
          (let w1 = writerow (Data timestamp cpu_usage memory_usage) w;
               w2 = (if buffer_spills t then write_through w1 else w1)
           in (py_print (Logged timestamp cpu_usage memory_usage) w2, None))
      | Some (Exception e) \<Rightarrow> (py_print (WriteError e) w, None)
      | Some KeyboardInterrupt \<Rightarrow> (w, Some KeyboardInterrupt))"

definition time_sleep :: "nat \<Rightarrow> tick_env \<Rightarrow> exn option" where
  "time_sleep seconds t = sleep_result t"

text \<open>
  One iteration of \<open>while True\<close>. The world it returns is the world in which the
  sleep begins (when the iteration gets that far); the second component is the
  exception that leaves the iteration, if any.
\<close>

definition tick :: "world \<Rightarrow> tick_env \<Rightarrow> world \<times> exn option" where
  "tick w t =
     (case get_system_stats w t of
        (w1, Inl e) \<Rightarrow> (w1, Some e)
      | (w1, Inr (cpu_usage, memory_usage)) \<Rightarrow>
          (case (if cpu_usage \<noteq> None \<and> memory_usage \<noteq> None
                 then write_log_entry w1 t cpu_usage memory_usage
                 else (py_print (FailedStats (now t)) w1, None)) of
             (w2, Some e) \<Rightarrow> (w2, Some e)
           | (w2, None) \<Rightarrow> (w2, time_sleep LOG_INTERVAL_SECONDS t)))"

text \<open>
  The loop has no exit of its own: it ends only when an exception leaves an
  iteration. It is run on the iterations the environment describes; \<open>(w, None)\<close>
  says that all of them have passed and the loop is still running in world \<open>w\<close>.
\<close>

fun main_loop :: "world \<Rightarrow> tick_env list \<Rightarrow> world \<times> exn option" where
  "main_loop w [] = (w, None)"
| "main_loop w (t # ts) =
     (case tick w t of
        (w', Some e) \<Rightarrow> (w', Some e)
      | (w', None) \<Rightarrow> main_loop w' ts)"

text \<open>The header step inside the \<open>with\<close> block.\<close>

definition write_header :: "bool \<Rightarrow> world \<Rightarrow> start_env \<Rightarrow> world \<times> exn option" where
  "write_header file_exists w s =
     (if \<not> file_exists \<or> getsize w = 0
      then (case header_result s of
              Some e \<Rightarrow> (w, Some e)
            | None \<Rightarrow> (py_print HeaderWritten (writerow CSV_HEADER w), None))
      else (w, None))"

text \<open>
  The body of \<open>try\<close> in \<open>main\<close>: open the file, write the header if needed, loop.
  An exception that leaves the \<open>with\<close> block closes the file object on its way.
\<close>

definition main_try :: "bool \<Rightarrow> world \<Rightarrow> start_env \<Rightarrow> tick_env list \<Rightarrow> world \<times> exn option" where
  "main_try file_exists w s ts =
     (case open_result s of
        Some e \<Rightarrow> (w, Some e)
      | None \<Rightarrow>
          (case write_header file_exists (py_open w) s of
             (w1, Some e) \<Rightarrow> (py_close w1, Some e)
           | (w1, None) \<Rightarrow>
               (case main_loop w1 ts of
                  (w2, Some e) \<Rightarrow> (py_close w2, Some e)
                | (w2, None) \<Rightarrow> (w2, None))))"

text \<open>
  The handlers of \<open>main\<close>: the exception that is left after them, if any.
\<close>

definition main_except :: "exn \<Rightarrow> world \<Rightarrow> world \<times> exn option" where
  "main_except e w =
     (case e of
        KeyboardInterrupt \<Rightarrow> (py_print StoppedByUser w, None)
      | Exception msg \<Rightarrow> (py_print (UnexpectedError msg) w, None))"

text \<open>
  \<open>main\<close>, started on a disk \<open>d\<close>. The result is the world and the exit status of
  the process: \<open>None\<close> while the loop is still running, \<open>Some 0\<close> when \<open>main\<close> has
  returned, \<open>Some 1\<close> when an exception has left \<open>main\<close>.
\<close>

definition main :: "row list option \<Rightarrow> start_env \<Rightarrow> tick_env list \<Rightarrow> world \<times> nat option" where
  "main d s ts =
     (let w0 = py_print PressCtrlC
                 (py_print (Starting LOG_FILE_NAME LOG_INTERVAL_SECONDS)
                    \<lparr>disk = d, csvfile = None, stdout = []\<rparr>);
          file_exists = (d \<noteq> None)
      in case main_try file_exists w0 s ts of
           (w, None) \<Rightarrow> (w, None)
         | (w, Some e) \<Rightarrow>
             (case main_except e w of
                (w', None) \<Rightarrow> (py_print Exiting w', Some 0)
              | (w', Some e') \<Rightarrow> (py_print Exiting w', Some 1)))"


subsection \<open>Notions the properties are stated with\<close>

text \<open>
  The exception that leaves an iteration depends on the environment of that
  iteration only, not on the world it starts in (lemma \<open>tick_snd\<close> below).
\<close>

definition tick_raises :: "tick_env \<Rightarrow> exn option" where
  "tick_raises t = snd (tick \<lparr>disk = None, csvfile = None, stdout = []\<rparr> t)"

text \<open>The rows one iteration hands to the file object, and those a run of the loop does.\<close>

definition tick_rows :: "tick_env \<Rightarrow> row list" where
  "tick_rows t =
     (case (cpu_percent t, virtual_memory t, writerow_result t) of
        (Inr c, Inr m, None) \<Rightarrow> [Data (now t) (Some c) (Some m)]
      | _ \<Rightarrow> [])"

fun logged :: "tick_env list \<Rightarrow> row list" where
  "logged [] = []"
| "logged (t # ts) = tick_rows t @ (if tick_raises t = None then logged ts else [])"

text \<open>The timestamps of the data rows of a file, in file order.\<close>

fun timestamps :: "row list \<Rightarrow> nat list" where
  "timestamps [] = []"
| "timestamps (Data n c m # rs) = n # timestamps rs"
| "timestamps (Labels l # rs) = timestamps rs"

text \<open>A percentage, where there is one, lies between 0 and 100.\<close>

definition pct_ok :: "real option \<Rightarrow> bool" where
  "pct_ok v = (case v of None \<Rightarrow> True | Some x \<Rightarrow> 0 \<le> x \<and> x \<le> 100)"

definition row_in_range :: "row \<Rightarrow> bool" where
  "row_in_range r = (case r of Labels l \<Rightarrow> True | Data n c m \<Rightarrow> pct_ok c \<and> pct_ok m)"

text \<open>The provider contract: a query that returns a value returns one between 0 and 100.\<close>

definition query_ok :: "exn + real \<Rightarrow> bool" where
  "query_ok q = (case q of Inl e \<Rightarrow> True | Inr x \<Rightarrow> 0 \<le> x \<and> x \<le> 100)"

definition provider_contract :: "tick_env \<Rightarrow> bool" where
  "provider_contract t = (query_ok (cpu_percent t) \<and> query_ok (virtual_memory t))"


text \<open>A file that is absent or empty, and one that begins with the header and holds no second one.\<close>

definition fresh :: "row list option \<Rightarrow> bool" where
  "fresh d = (d = None \<or> d = Some [])"


text \<open>The world in which \<open>try\<close> begins: the two opening lines are printed.\<close>

definition banner :: "row list option \<Rightarrow> world" where
  "banner d = py_print PressCtrlC (py_print (Starting LOG_FILE_NAME LOG_INTERVAL_SECONDS)
                \<lparr>disk = d, csvfile = None, stdout = []\<rparr>)"

text \<open>
  The rows one start of the script (and the part of its loop that the environment
  describes) hands to the file object, and whether that start comes to an end: the
  file cannot be opened, the header cannot be written, or an exception leaves an
  iteration.
\<close>

definition appended :: "row list option \<Rightarrow> start_env \<Rightarrow> tick_env list \<Rightarrow> row list" where
  "appended d s ts =
     (if open_result s \<noteq> None then []
      else if fresh d then (if header_result s = None then CSV_HEADER # logged ts else [])
      else logged ts)"


subsection \<open>Example environments\<close>

text \<open>A start in which the file opens and the header can be written.\<close>

definition start_ok :: start_env where
  "start_ok = \<lparr>open_result = None, header_result = None\<rparr>"

text \<open>
  An iteration at clock reading \<open>n\<close> in which the two queries return \<open>c\<close> and \<open>m\<close>,
  the row is written (and stays in the buffer) and the sleep ends normally.
\<close>

definition sample :: "nat \<Rightarrow> real \<Rightarrow> real \<Rightarrow> tick_env" where
  "sample n c m =
     \<lparr>cpu_percent = Inr c, virtual_memory = Inr m, now = n, writerow_result = None,
      buffer_spills = False, sleep_result = None\<rparr>"

text \<open>The same iteration on which the runtime's buffer fills up and is written through.\<close>

definition spilling_sample :: "nat \<Rightarrow> real \<Rightarrow> real \<Rightarrow> tick_env" where
  "spilling_sample n c m = (sample n c m)\<lparr>buffer_spills := True\<rparr>"

text \<open>The same iteration with Ctrl+C pressed during its sleep.\<close>

definition sample_then_stop :: "nat \<Rightarrow> real \<Rightarrow> real \<Rightarrow> tick_env" where
  "sample_then_stop n c m = (sample n c m)\<lparr>sleep_result := Some KeyboardInterrupt\<rparr>"

text \<open>An iteration with Ctrl+C pressed while \<open>psutil.cpu_percent\<close> measures.\<close>

definition stop_in_provider :: "nat \<Rightarrow> tick_env" where
  "stop_in_provider n =
     \<lparr>cpu_percent = Inl KeyboardInterrupt, virtual_memory = Inr 45.6, now = n,
      writerow_result = None, buffer_spills = False, sleep_result = None\<rparr>"

text \<open>An iteration in which \<open>psutil.cpu_percent\<close> fails with an error.\<close>

definition failing_sample :: "nat \<Rightarrow> tick_env" where
  "failing_sample n =
     \<lparr>cpu_percent = Inl (Exception ''access denied''), virtual_memory = Inr 45.6, now = n,
      writerow_result = None, buffer_spills = False, sleep_result = None\<rparr>"

text \<open>An iteration in which the queries succeed and \<open>writerow\<close> fails with an error.\<close>

definition failing_write :: "nat \<Rightarrow> tick_env" where
  "failing_write n = (sample n 12.3 45.6)\<lparr>writerow_result := Some (Exception ''disk full'')\<rparr>"

text \<open>A world with an open, empty file object on an empty file.\<close>

definition opened :: world where
  "opened = \<lparr>disk = Some [], csvfile = Some [], stdout = []\<rparr>"

section \<open>Properties\<close>

subsection \<open>The file object and standard output\<close>

lemma rows_of_simps [simp]: "rows_of None = []" "rows_of (Some rs) = rs"
  by (simp_all add: rows_of_def)

lemma CSV_HEADER_not_Data [simp]: "CSV_HEADER \<noteq> Data n c m" "Data n c m \<noteq> CSV_HEADER"
  by (simp_all add: CSV_HEADER_def)

lemma all_rows_py_print [simp]: "all_rows (py_print n w) = all_rows w"
  by (simp add: all_rows_def py_print_def)

lemma csvfile_py_print [simp]: "csvfile (py_print n w) = csvfile w"
  by (simp add: py_print_def)

lemma disk_py_print [simp]: "disk (py_print n w) = disk w"
  by (simp add: py_print_def)

lemma stdout_py_print [simp]: "stdout (py_print n w) = stdout w @ [n]"
  by (simp add: py_print_def)

lemma all_rows_writerow: "csvfile w \<noteq> None \<Longrightarrow> all_rows (writerow r w) = all_rows w @ [r]"
  by (auto simp: all_rows_def writerow_def)

lemma csvfile_writerow [simp]: "csvfile (writerow r w) = None \<longleftrightarrow> csvfile w = None"
  by (simp add: writerow_def)

lemma disk_writerow [simp]: "disk (writerow r w) = disk w"
  by (simp add: writerow_def)

lemma stdout_writerow [simp]: "stdout (writerow r w) = stdout w"
  by (simp add: writerow_def)

lemma all_rows_write_through [simp]: "all_rows (write_through w) = all_rows w"
  by (auto simp: all_rows_def write_through_def split: option.splits)

lemma csvfile_write_through [simp]: "csvfile (write_through w) = None \<longleftrightarrow> csvfile w = None"
  by (simp add: write_through_def split: option.splits)

lemma stdout_write_through [simp]: "stdout (write_through w) = stdout w"
  by (simp add: write_through_def split: option.splits)

lemma all_rows_py_close [simp]: "all_rows (py_close w) = all_rows w"
  by (auto simp: all_rows_def py_close_def write_through_def split: option.splits)


lemma csvfile_py_close [simp]: "csvfile (py_close w) = None"
  by (simp add: py_close_def)

lemma stdout_py_close [simp]: "stdout (py_close w) = stdout w"
  by (simp add: py_close_def)

lemma all_rows_py_open [simp]: "all_rows (py_open w) = rows_of (disk w)"
  by (simp add: all_rows_def py_open_def)

lemma csvfile_py_open [simp]: "csvfile (py_open w) = Some []"
  by (simp add: py_open_def)

lemma getsize_py_open [simp]: "getsize (py_open w) = length (rows_of (disk w))"
  by (simp add: getsize_def py_open_def)

subsection \<open>One iteration\<close>

lemma tick_all_rows:
  "csvfile w \<noteq> None \<Longrightarrow> all_rows (fst (tick w t)) = all_rows w @ tick_rows t"
  by (auto simp: tick_def get_system_stats_def write_log_entry_def tick_rows_def Let_def
        all_rows_writerow split: sum.splits exn.splits option.splits)

lemma tick_csvfile [simp]: "csvfile (fst (tick w t)) = None \<longleftrightarrow> csvfile w = None"
  by (simp add: tick_def get_system_stats_def write_log_entry_def Let_def
        split: sum.splits exn.splits option.splits)

lemma tick_snd_indep: "snd (tick w t) = snd (tick w' t)"
  by (auto simp: tick_def get_system_stats_def write_log_entry_def Let_def
        split: sum.splits exn.splits option.splits)

lemma tick_snd: "snd (tick w t) = tick_raises t"
  unfolding tick_raises_def by (rule tick_snd_indep)

lemma tick_success:
  assumes "cpu_percent t = Inr c" "virtual_memory t = Inr m" "writerow_result t = None"
  shows "tick w t =
     (py_print (Logged (now t) (Some c) (Some m))
        (if buffer_spills t then write_through (writerow (Data (now t) (Some c) (Some m)) w)
         else writerow (Data (now t) (Some c) (Some m)) w),
      sleep_result t)"
  using assms
  by (simp add: tick_def get_system_stats_def write_log_entry_def time_sleep_def Let_def)


subsection \<open>The loop\<close>


lemma main_loop_all_rows:
  "csvfile w \<noteq> None \<Longrightarrow> all_rows (fst (main_loop w ts)) = all_rows w @ logged ts"
proof (induction ts arbitrary: w)
  case Nil
  show ?case by simp
next
  case (Cons t ts)
  show ?case
  proof (cases "tick w t")
    case (Pair w' r)
    have open': "csvfile w' \<noteq> None"
      using tick_csvfile [of w t] Pair Cons.prems by simp
    have rows': "all_rows w' = all_rows w @ tick_rows t"
      using tick_all_rows [OF Cons.prems, of t] Pair by simp
    have r0: "tick_raises t = r"
      using tick_snd [of w t] Pair by simp
    show ?thesis
    proof (cases r)
      case None
      with Pair rows' r0 Cons.IH [OF open'] show ?thesis by simp
    next
      case (Some e)
      with Pair rows' r0 show ?thesis by simp
    qed
  qed
qed


subsection \<open>The rows a run appends\<close>

lemma fresh_rows_of: "fresh d \<longleftrightarrow> d = None \<or> rows_of d = []"
  by (cases d) (simp_all add: fresh_def)







lemma timestamps_append [simp]: "timestamps (xs @ ys) = timestamps xs @ timestamps ys"
  by (induction xs rule: timestamps.induct) simp_all

lemma timestamps_tick_rows: "timestamps (tick_rows t) = [] \<or> timestamps (tick_rows t) = [now t]"
  by (auto simp: tick_rows_def split: sum.splits option.splits)

lemma timestamps_logged_subseq: "subseq (timestamps (logged ts)) (map now ts)"
proof (induction ts)
  case Nil
  show ?case by simp
next
  case (Cons t ts)
  have rest: "subseq (timestamps (if tick_raises t = None then logged ts else [])) (map now ts)"
    using Cons.IH by simp
  from timestamps_tick_rows [of t] show ?case
  proof
    assume none: "timestamps (tick_rows t) = []"
    from rest
    have "subseq (timestamps (if tick_raises t = None then logged ts else [])) (now t # map now ts)"
      by (rule list_emb_Cons)
    with none show ?thesis by simp
  next
    assume "timestamps (tick_rows t) = [now t]"
    with rest show ?thesis by simp
  qed
qed

lemma sorted_subseq: "subseq xs ys \<Longrightarrow> sorted ys \<Longrightarrow> sorted (xs :: nat list)"
proof (induction rule: list_emb.induct)
  case (list_emb_Nil ys)
  show ?case by simp
next
  case (list_emb_Cons xs ys y)
  then show ?case by simp
next
  case (list_emb_Cons2 x y xs ys)
  then have "set xs \<subseteq> set ys"
    by (auto dest: list_emb_set)
  with list_emb_Cons2 show ?case by auto
qed

lemma write_header_all_rows:
  "all_rows (fst (write_header (disk w \<noteq> None) (py_open w) s))
     = rows_of (disk w) @ (if fresh (disk w) \<and> header_result s = None then [CSV_HEADER] else [])"
  by (auto simp: write_header_def fresh_rows_of all_rows_writerow split: option.splits)

lemma write_header_csvfile:
  "csvfile (fst (write_header b (py_open w) s)) \<noteq> None"
  by (simp add: write_header_def writerow_def py_open_def split: option.splits)

lemma write_header_snd:
  "snd (write_header (disk w \<noteq> None) (py_open w) s)
     = (if fresh (disk w) then header_result s else None)"
  by (auto simp: write_header_def fresh_rows_of split: option.splits)


lemma main_try_all_rows:
  "all_rows (fst (main_try (disk w \<noteq> None) w s ts)) =
     (if open_result s \<noteq> None then all_rows w else rows_of (disk w) @ appended (disk w) s ts)"
proof (cases "open_result s")
  case (Some e)
  then show ?thesis by (simp add: main_try_def)
next
  case None
  show ?thesis
  proof (cases "write_header (disk w \<noteq> None) (py_open w) s")
    case (Pair w1 r1)
    have rows1: "all_rows w1 = rows_of (disk w) @ (if fresh (disk w) \<and> header_result s = None then [CSV_HEADER] else [])"
      using write_header_all_rows [of w s] Pair by simp
    have open1: "csvfile w1 \<noteq> None"
      using write_header_csvfile [of "disk w \<noteq> None" w s] Pair by simp
    have r1: "r1 = (if fresh (disk w) then header_result s else None)"
      using write_header_snd [of w s] Pair by simp
    show ?thesis
    proof (cases r1)
      case (Some e)
      with None Pair rows1 r1 show ?thesis
        by (auto simp: main_try_def appended_def split: if_splits)
    next
      case r1_None: None
      have rows2: "all_rows (fst (main_loop w1 ts)) = all_rows w1 @ logged ts"
        using main_loop_all_rows [OF open1] .
      from r1_None r1 have hdr: "\<not> fresh (disk w) \<or> header_result s = None"
        by (auto split: if_splits)
      have "all_rows (fst (main_try (disk w \<noteq> None) w s ts)) = all_rows (fst (main_loop w1 ts))"
        using None Pair r1_None
        by (cases "main_loop w1 ts") (auto simp: main_try_def split: option.splits)
      with rows2 rows1 hdr None show ?thesis
        by (auto simp: appended_def)
    qed
  qed
qed





subsection \<open>A whole start of the script\<close>

lemma banner_simps [simp]: "disk (banner d) = d" "csvfile (banner d) = None"
  "all_rows (banner d) = rows_of d"
  by (simp_all add: banner_def all_rows_def)

lemma main_banner:
  "main d s ts =
     (case main_try (d \<noteq> None) (banner d) s ts of
        (w, None) \<Rightarrow> (w, None)
      | (w, Some e) \<Rightarrow> (py_print Exiting (fst (main_except e w)), Some 0))"
  by (simp add: main_def banner_def Let_def main_except_def split: prod.splits option.splits exn.splits)

lemma main_except_simps [simp]:
  "all_rows (fst (main_except e w)) = all_rows w"
  "disk (fst (main_except e w)) = disk w"
  "csvfile (fst (main_except e w)) = csvfile w"
  by (simp_all add: main_except_def split: exn.splits)

lemma main_all_rows: "all_rows (fst (main d s ts)) = rows_of d @ appended d s ts"
proof -
  have "all_rows (fst (main d s ts)) = all_rows (fst (main_try (d \<noteq> None) (banner d) s ts))"
    by (cases "main_try (d \<noteq> None) (banner d) s ts")
      (simp add: main_banner split: option.splits)
  then show ?thesis
    using main_try_all_rows [of "banner d" s ts] by (simp add: appended_def)
qed







lemma timestamps_appended: "timestamps (appended d s ts) = [] \<or> timestamps (appended d s ts) = timestamps (logged ts)"
  by (simp add: appended_def CSV_HEADER_def)


subsection \<open>The example environments, evaluated\<close>

lemma tick_sample [simp]:
  "tick w (sample n c m)
     = (py_print (Logged n (Some c) (Some m)) (writerow (Data n (Some c) (Some m)) w), None)"
  by (simp add: tick_def get_system_stats_def write_log_entry_def time_sleep_def sample_def)

lemma tick_sample_then_stop [simp]:
  "tick w (sample_then_stop n c m)
     = (py_print (Logged n (Some c) (Some m)) (writerow (Data n (Some c) (Some m)) w),
        Some KeyboardInterrupt)"
  by (simp add: tick_def get_system_stats_def write_log_entry_def time_sleep_def sample_def
        sample_then_stop_def)

lemma tick_stop_in_provider [simp]:
  "tick w (stop_in_provider n) = (w, Some KeyboardInterrupt)"
  by (simp add: tick_def get_system_stats_def stop_in_provider_def)

lemma tick_failing_sample [simp]:
  "tick w (failing_sample n)
     = (py_print (FailedStats n) (py_print (StatsError ''access denied'') w), None)"
  by (simp add: tick_def get_system_stats_def time_sleep_def failing_sample_def)

lemma tick_failing_write [simp]:
  "tick w (failing_write n) = (py_print (WriteError ''disk full'') w, None)"
  by (simp add: tick_def get_system_stats_def write_log_entry_def time_sleep_def sample_def
        failing_write_def del: not_None_eq)

lemma tick_raises_examples [simp]:
  "tick_raises (sample n c m) = None"
  "tick_raises (sample_then_stop n c m) = Some KeyboardInterrupt"
  "tick_raises (stop_in_provider n) = Some KeyboardInterrupt"
  "tick_raises (failing_sample n) = None"
  "tick_raises (failing_write n) = None"
  by (simp_all add: tick_raises_def)

lemma start_ok_simps [simp]: "open_result start_ok = None" "header_result start_ok = None"
  by (simp_all add: start_ok_def)

lemma sample_fields [simp]:
  "cpu_percent (sample n c m) = Inr c" "virtual_memory (sample n c m) = Inr m"
  "now (sample n c m) = n" "writerow_result (sample n c m) = None"
  "buffer_spills (sample n c m) = False" "sleep_result (sample n c m) = None"
  by (simp_all add: sample_def)

lemma sample_then_stop_fields [simp]:
  "cpu_percent (sample_then_stop n c m) = Inr c" "virtual_memory (sample_then_stop n c m) = Inr m"
  "now (sample_then_stop n c m) = n" "writerow_result (sample_then_stop n c m) = None"
  "buffer_spills (sample_then_stop n c m) = False"
  "sleep_result (sample_then_stop n c m) = Some KeyboardInterrupt"
  by (simp_all add: sample_then_stop_def)

lemma spilling_sample_fields [simp]:
  "cpu_percent (spilling_sample n c m) = Inr c" "virtual_memory (spilling_sample n c m) = Inr m"
  "now (spilling_sample n c m) = n" "writerow_result (spilling_sample n c m) = None"
  "buffer_spills (spilling_sample n c m) = True" "sleep_result (spilling_sample n c m) = None"
  by (simp_all add: spilling_sample_def)

lemma failing_sample_fields [simp]: "now (failing_sample n) = n"
  by (simp add: failing_sample_def)

lemma stop_in_provider_fields [simp]:
  "cpu_percent (stop_in_provider n) = Inl KeyboardInterrupt" "sleep_result (stop_in_provider n) = None"
  by (simp_all add: stop_in_provider_def)

lemma tick_spilling_sample [simp]:
  "tick w (spilling_sample n c m)
     = (py_print (Logged n (Some c) (Some m))
          (write_through (writerow (Data n (Some c) (Some m)) w)), None)"
  by (simp add: tick_success)

lemma provider_contract_examples [simp]:
  "provider_contract (sample n c m) \<longleftrightarrow> 0 \<le> c \<and> c \<le> 100 \<and> 0 \<le> m \<and> m \<le> 100"
  "provider_contract (failing_sample n)"
  by (simp_all add: provider_contract_def query_ok_def sample_def failing_sample_def)

lemma row_in_range_simps [simp]:
  "row_in_range CSV_HEADER"
  "row_in_range (Data n (Some c) (Some m)) \<longleftrightarrow> 0 \<le> c \<and> c \<le> 100 \<and> 0 \<le> m \<and> m \<le> 100"
  by (simp_all add: row_in_range_def pct_ok_def CSV_HEADER_def)

lemma get_system_stats_examples [simp]:
  "get_system_stats w (sample n c m) = (w, Inr (Some c, Some m))"
  "get_system_stats w (failing_sample n) = (py_print (StatsError ''access denied'') w, Inr (None, None))"
  "get_system_stats w (stop_in_provider n) = (w, Inl KeyboardInterrupt)"
  by (simp_all add: get_system_stats_def sample_def failing_sample_def stop_in_provider_def)

lemmas world_defs = py_open_def py_close_def write_through_def writerow_def py_print_def
  getsize_def all_rows_def

lemmas main_defs = main_def main_try_def main_except_def write_header_def Let_def

section \<open>The provider: \<open>get_system_stats\<close>\<close>






section \<open>One iteration of the loop\<close>

text \<open>
  Claim C2 (no row on failure): in an iteration in which \<open>get_system_stats\<close> returns the
  failure indicator, the file on disk and the rows held by the file object stay as they
  were, and what the iteration prints ends with the notice of the failure, tagged with
  the clock reading of that iteration (after the provider's own error line).
\<close>

theorem no_row_on_failure:
  assumes "snd (get_system_stats w t) = Inr (None, None)"
  shows "disk (fst (tick w t)) = disk w \<and> csvfile (fst (tick w t)) = csvfile w
         \<and> (\<exists>e. stdout (fst (tick w t)) = stdout w @ [StatsError e, FailedStats (now t)])"
  using assms
  by (auto simp: tick_def get_system_stats_def split: sum.splits exn.splits)

theorem no_row_on_failure_witness:
  "snd (get_system_stats opened (failing_sample 7)) = Inr (None, None)
   \<and> disk (fst (tick opened (failing_sample 7))) = Some []
   \<and> csvfile (fst (tick opened (failing_sample 7))) = Some []
   \<and> stdout (fst (tick opened (failing_sample 7))) = [StatsError ''access denied'', FailedStats 7]"
proof -
  have h: "snd (get_system_stats opened (failing_sample 7)) = Inr (None, None)"
    by (simp add: get_system_stats_def failing_sample_def)
  from no_row_on_failure [OF h] h show ?thesis
    by (simp add: opened_def failing_sample_def get_system_stats_def tick_def time_sleep_def
          py_print_def)
qed









section \<open>The log file across starts\<close>





text \<open>
  Claim C7 says that in every run the timestamps of the appended rows are non-decreasing.
  The timestamp is the local wall clock read at each iteration, and nothing orders its
  readings: when the clock is set back between two iterations (here from 02:00:00 to
  01:00:05, as at the end of daylight saving time), the later row carries the smaller
  timestamp.
\<close>

theorem clock_set_back_counterexample:
  "all_rows (fst (main None start_ok [sample 7200 12.3 45.6, sample 3605 10 50]))
     = [CSV_HEADER, Data 7200 (Some 12.3) (Some 45.6), Data 3605 (Some 10) (Some 50)]
   \<and> \<not> sorted (timestamps
        (all_rows (fst (main None start_ok [sample 7200 12.3 45.6, sample 3605 10 50]))))"
  by (simp add: main_defs world_defs CSV_HEADER_def)

text \<open>
  Claim C7, amended: the rows a run appends come after the rows the file already held,
  in the order of the iterations that logged them, each with the clock reading of its
  iteration (their timestamps are a subsequence of the readings). So whenever the clock
  readings of the successive iterations are non-decreasing, the timestamps of the
  appended rows are non-decreasing, ties included.
\<close>

theorem monotonic_append:
  "\<exists>new. all_rows (fst (main d s ts)) = rows_of d @ new
     \<and> subseq (timestamps new) (map now ts)
     \<and> (sorted (map now ts) \<longrightarrow> sorted (timestamps new))"
proof -
  have sub: "subseq (timestamps (appended d s ts)) (map now ts)"
    using timestamps_appended [of d s ts] timestamps_logged_subseq [of ts] by auto
  then have "sorted (map now ts) \<longrightarrow> sorted (timestamps (appended d s ts))"
    using sorted_subseq by blast
  with sub main_all_rows [of d s ts] show ?thesis by blast
qed

theorem monotonic_append_witness:
  "sorted (map now [sample 10 12.3 45.6, failing_sample 16, sample 22 10 50, sample 22 11 50])
   \<and> all_rows (fst (main None start_ok
        [sample 10 12.3 45.6, failing_sample 16, sample 22 10 50, sample 22 11 50]))
      = [CSV_HEADER, Data 10 (Some 12.3) (Some 45.6), Data 22 (Some 10) (Some 50),
         Data 22 (Some 11) (Some 50)]
   \<and> sorted (timestamps [CSV_HEADER, Data 10 (Some 12.3) (Some 45.6), Data 22 (Some 10) (Some 50),
         Data 22 (Some 11) (Some 50)])"
  using monotonic_append [of None start_ok
      "[sample 10 12.3 45.6, failing_sample 16, sample 22 10 50, sample 22 11 50]"]
  by (simp add: main_defs world_defs CSV_HEADER_def)

section \<open>Termination\<close>



end
